theory Spec2Isabelle
  imports Complex_Main
begin

section \<open>SonifyLab: the conversion scheduler of \<^verbatim>\<open>SonifyLab.py\<close>\<close>

text \<open>
  The development follows the source file top down: the Python built-ins the code relies
  on (\<^verbatim>\<open>str.strip\<close>, \<^verbatim>\<open>str.split\<close>, \<^verbatim>\<open>int\<close>, \<^verbatim>\<open>float\<close>), the class
  \<^verbatim>\<open>ConversionProcess\<close> with its telemetry parser, and the scheduling part of the class
  \<^verbatim>\<open>MainWindow\<close>.

  Conventions of the model.
  \<^item> Strings are lists of 8-bit characters; the built-ins are modelled on ASCII input
    (Python also reads non-ASCII decimal digits and white space, which is outside the
    model).
  \<^item> A Python \<^verbatim>\<open>float\<close> is an exact rational or one of the three special values that
    \<^verbatim>\<open>float()\<close> reads from text. Arithmetic on the rationals is exact: rounding and
    overflow of binary floating point are not modelled.
  \<^item> An exception is a value of type \<open>py_error\<close>; a function that may raise returns
    \<open>py_error + 'a\<close>.
\<close>

subsection \<open>Python built-ins\<close>

datatype py_error =
  ValueError | TypeError | OverflowError | IndexError | ZeroDivisionError | OSError

datatype pyfloat = Float_fin rat | Float_pinf | Float_ninf | Float_nan

text \<open>White space as \<^verbatim>\<open>str.strip()\<close>, \<^verbatim>\<open>int()\<close> and \<^verbatim>\<open>float()\<close> see it (ASCII part).\<close>

definition isspace :: "char \<Rightarrow> bool" where
  "isspace c \<longleftrightarrow>
     c \<in> set [CHR 0x09, CHR 0x0A, CHR 0x0B, CHR 0x0C, CHR 0x0D,
              CHR 0x1C, CHR 0x1D, CHR 0x1E, CHR 0x1F, CHR 0x20]"

definition isdigit :: "char \<Rightarrow> bool" where
  "isdigit c \<longleftrightarrow> c \<in> set ''0123456789''"

definition strip :: "string \<Rightarrow> string" where
  "strip s = rev (dropWhile isspace (rev (dropWhile isspace s)))"

definition startswith :: "string \<Rightarrow> string \<Rightarrow> bool" where
  "startswith s p \<longleftrightarrow> take (length p) s = p"

text \<open>\<^verbatim>\<open>s.split(sep)\<close> for a one-character separator: never empty, \<^verbatim>\<open>''.split(sep) == ['']\<close>.\<close>

fun py_split :: "char \<Rightarrow> string \<Rightarrow> string list" where
  "py_split sep [] = [[]]"
| "py_split sep (c # cs) =
     (if c = sep then [] # py_split sep cs
      else (case py_split sep cs of
              [] \<Rightarrow> [[c]]
            | w # ws \<Rightarrow> (c # w) # ws))"

definition digit_val :: "char \<Rightarrow> nat" where
  "digit_val c = of_char c - 48"

definition nat_of_digits :: "string \<Rightarrow> nat" where
  "nat_of_digits ds = foldl (\<lambda>a c. 10 * a + digit_val c) 0 ds"

text \<open>
  A run of decimal digits in which single underscores may stand between two digits
  (PEP 515); the result is the digits without the underscores.
\<close>

fun digitpart :: "string \<Rightarrow> string option" where
  "digitpart [] = None"
| "digitpart [c] = (if isdigit c then Some [c] else None)"
| "digitpart (c # d # cs) =
     (if isdigit c
      then (if d = CHR ''_'' then map_option ((#) c) (digitpart cs)
            else map_option ((#) c) (digitpart (d # cs)))
      else None)"

text \<open>An optional sign in front of the rest: \<open>(negative, rest)\<close>.\<close>

fun split_sign :: "string \<Rightarrow> bool \<times> string" where
  "split_sign [] = (False, [])"
| "split_sign (c # cs) =
     (if c = CHR ''-'' then (True, cs)
      else if c = CHR ''+'' then (False, cs)
      else (False, c # cs))"

text \<open>\<^verbatim>\<open>int(s)\<close> in base 10: white space around, an optional sign, a digit part.\<close>

definition py_int :: "string \<Rightarrow> py_error + int" where
  "py_int s =
     (case split_sign (strip s) of
        (neg, body) \<Rightarrow>
          (case digitpart body of
             None \<Rightarrow> Inl ValueError
           | Some ds \<Rightarrow>
               Inr (if neg then - int (nat_of_digits ds) else int (nat_of_digits ds))))"

text \<open>Lower-casing, as far as matching the words \<^verbatim>\<open>inf\<close>, \<^verbatim>\<open>infinity\<close>, \<^verbatim>\<open>nan\<close> needs it.\<close>

definition lower_special :: "char \<Rightarrow> char" where
  "lower_special c =
     (if c = CHR ''I'' then CHR ''i'' else if c = CHR ''N'' then CHR ''n''
      else if c = CHR ''F'' then CHR ''f'' else if c = CHR ''T'' then CHR ''t''
      else if c = CHR ''Y'' then CHR ''y'' else if c = CHR ''A'' then CHR ''a''
      else c)"

definition is_exp_mark :: "char \<Rightarrow> bool" where
  "is_exp_mark c \<longleftrightarrow> c = CHR ''e'' \<or> c = CHR ''E''"

text \<open>An empty string or a digit part: the two sides of the decimal point.\<close>

definition opt_digitpart :: "string \<Rightarrow> string option" where
  "opt_digitpart s = (if s = [] then Some [] else digitpart s)"

text \<open>
  The mantissa of a decimal float literal: \<open>(digits, number of digits after the point)\<close>.
  Without a point it is a digit part; with a point, at least one side is not empty.
\<close>

definition mantissa :: "string \<Rightarrow> (string \<times> nat) option" where
  "mantissa m =
     (let ip = takeWhile (\<lambda>c. c \<noteq> CHR ''.'') m;
          rest = dropWhile (\<lambda>c. c \<noteq> CHR ''.'') m
      in if rest = [] then map_option (\<lambda>ds. (ds, 0)) (digitpart ip)
         else (case (opt_digitpart ip, opt_digitpart (tl rest)) of
                 (Some ids, Some fds) \<Rightarrow>
                   (if ids = [] \<and> fds = [] then None else Some (ids @ fds, length fds))
               | _ \<Rightarrow> None))"

text \<open>The exponent after \<^verbatim>\<open>e\<close>/\<^verbatim>\<open>E\<close>: an optional sign and a digit part.\<close>

definition exponent :: "string \<Rightarrow> int option" where
  "exponent e =
     (case split_sign e of
        (neg, body) \<Rightarrow>
          map_option (\<lambda>ds. if neg then - int (nat_of_digits ds) else int (nat_of_digits ds))
            (digitpart body))"

definition scale10 :: "rat \<Rightarrow> int \<Rightarrow> rat" where
  "scale10 r e = (if 0 \<le> e then r * 10 ^ nat e else r / 10 ^ nat (- e))"

text \<open>The unsigned decimal literal: mantissa and optional exponent.\<close>

definition decimal_literal :: "string \<Rightarrow> rat option" where
  "decimal_literal body =
     (let m = takeWhile (\<lambda>c. \<not> is_exp_mark c) body;
          rest = dropWhile (\<lambda>c. \<not> is_exp_mark c) body
      in case mantissa m of
           None \<Rightarrow> None
         | Some (ds, k) \<Rightarrow>
             (if rest = [] then Some (scale10 (of_nat (nat_of_digits ds)) (- int k))
              else (case exponent (tl rest) of
                      None \<Rightarrow> None
                    | Some e \<Rightarrow> Some (scale10 (of_nat (nat_of_digits ds)) (e - int k)))))"

text \<open>
  \<^verbatim>\<open>float(s)\<close>: white space around, an optional sign, then \<^verbatim>\<open>inf\<close>, \<^verbatim>\<open>infinity\<close> or
  \<^verbatim>\<open>nan\<close> in any case, or a decimal literal.
\<close>

definition py_float :: "string \<Rightarrow> py_error + pyfloat" where
  "py_float s =
     (case split_sign (strip s) of
        (neg, body) \<Rightarrow>
          (if map lower_special body = ''inf'' \<or> map lower_special body = ''infinity''
           then Inr (if neg then Float_ninf else Float_pinf)
           else if map lower_special body = ''nan'' then Inr Float_nan
           else (case decimal_literal body of
                   None \<Rightarrow> Inl ValueError
                 | Some r \<Rightarrow> Inr (Float_fin (if neg then - r else r)))))"

text \<open>Float arithmetic with the special values, as far as the program uses it.\<close>

fun float_add :: "pyfloat \<Rightarrow> pyfloat \<Rightarrow> pyfloat" where
  "float_add (Float_fin a) (Float_fin b) = Float_fin (a + b)"
| "float_add Float_nan _ = Float_nan"
| "float_add _ Float_nan = Float_nan"
| "float_add Float_pinf Float_ninf = Float_nan"
| "float_add Float_ninf Float_pinf = Float_nan"
| "float_add Float_pinf _ = Float_pinf"
| "float_add Float_ninf _ = Float_ninf"
| "float_add _ Float_pinf = Float_pinf"
| "float_add _ Float_ninf = Float_ninf"

fun float_neg :: "pyfloat \<Rightarrow> pyfloat" where
  "float_neg (Float_fin a) = Float_fin (- a)"
| "float_neg Float_pinf = Float_ninf"
| "float_neg Float_ninf = Float_pinf"
| "float_neg Float_nan = Float_nan"

definition float_sub :: "pyfloat \<Rightarrow> pyfloat \<Rightarrow> pyfloat" where
  "float_sub a b = float_add a (float_neg b)"

text \<open>\<open>a > 0\<close>: false for \<^verbatim>\<open>nan\<close>.\<close>

fun float_pos :: "pyfloat \<Rightarrow> bool" where
  "float_pos (Float_fin a) = (0 < a)"
| "float_pos Float_pinf = True"
| "float_pos _ = False"

fun float_neg_sign :: "pyfloat \<Rightarrow> bool" where
  "float_neg_sign (Float_fin a) = (a < 0)"
| "float_neg_sign Float_ninf = True"
| "float_neg_sign _ = False"

fun float_mul :: "pyfloat \<Rightarrow> pyfloat \<Rightarrow> pyfloat" where
  "float_mul (Float_fin a) (Float_fin b) = Float_fin (a * b)"
| "float_mul Float_nan _ = Float_nan"
| "float_mul _ Float_nan = Float_nan"
| "float_mul a b =
     (if a = Float_fin 0 \<or> b = Float_fin 0 then Float_nan
      else if float_neg_sign a = float_neg_sign b then Float_pinf else Float_ninf)"

text \<open>
  \<open>a / b\<close> for a divisor that is not zero (the program guards each of its divisions by
  a test that the divisor is positive); a zero divisor raises.
\<close>

fun float_div :: "pyfloat \<Rightarrow> pyfloat \<Rightarrow> py_error + pyfloat" where
  "float_div (Float_fin a) (Float_fin b) =
     (if b = 0 then Inl ZeroDivisionError else Inr (Float_fin (a / b)))"
| "float_div Float_nan (Float_fin b) =
     (if b = 0 then Inl ZeroDivisionError else Inr Float_nan)"
| "float_div Float_nan _ = Inr Float_nan"
| "float_div _ Float_nan = Inr Float_nan"
| "float_div (Float_fin a) _ = Inr (Float_fin 0)"
| "float_div a (Float_fin b) =
     (if b = 0 then Inl ZeroDivisionError
      else Inr (if float_neg_sign a = (b < 0) then Float_pinf else Float_ninf))"
| "float_div _ _ = Inr Float_nan"

text \<open>\<^verbatim>\<open>int(x)\<close> for a float: truncation towards zero; the special values raise.\<close>

fun int_of_float :: "pyfloat \<Rightarrow> py_error + int" where
  "int_of_float (Float_fin a) = Inr (if 0 \<le> a then \<lfloor>a\<rfloor> else \<lceil>a\<rceil>)"
| "int_of_float Float_nan = Inl ValueError"
| "int_of_float _ = Inl OverflowError"

subsection \<open>The environment\<close>

text \<open>
  What the program asks of the operating system: the two \<^verbatim>\<open>ffprobe\<close> invocations
  (\<^verbatim>\<open>subprocess.run\<close> raises or returns a completed process), whether \<^verbatim>\<open>ffmpeg\<close> can be
  run, and the \<^verbatim>\<open>os.path\<close> functions. The theorems hold for every environment.
\<close>

record completed_process =
  returncode :: int
  stdout :: string
  stderr :: string

record env =
  ffprobe_duration :: "string \<Rightarrow> py_error + completed_process"
  ffprobe_streams :: "string \<Rightarrow> py_error + completed_process"
  ffmpeg_found :: bool
  os_path_exists :: "string \<Rightarrow> bool"
  os_path_basename :: "string \<Rightarrow> string"
  os_path_splitext_root :: "string \<Rightarrow> string"
  os_path_join :: "string \<Rightarrow> string \<Rightarrow> string"

subsection \<open>\<^verbatim>\<open>QProcess\<close>\<close>

text \<open>
  The part of Qt's \<^verbatim>\<open>QProcess\<close> the program uses. In the channel mode
  \<^verbatim>\<open>MergedChannels\<close> the child's standard error is merged into the standard output
  channel, and \<^verbatim>\<open>readAllStandardError()\<close> returns no data. \<^verbatim>\<open>kill()\<close> asks the
  operating system to end the child; the object leaves the running state when the exit
  is delivered, with the \<^verbatim>\<open>finished\<close> signal.
\<close>

datatype channel_mode = SeparateChannels | MergedChannels

datatype process_state = NotRunning | Running

record qprocess =
  channel_mode :: channel_mode
  state :: process_state
  killed :: bool
  exit_code :: int
  stdout_buffer :: string
  stderr_buffer :: string

definition QProcess :: qprocess where
  "QProcess = \<lparr>channel_mode = SeparateChannels, state = NotRunning, killed = False,
     exit_code = 0, stdout_buffer = [], stderr_buffer = []\<rparr>"

definition setProcessChannelMode :: "channel_mode \<Rightarrow> qprocess \<Rightarrow> qprocess" where
  "setProcessChannelMode m q = q\<lparr>channel_mode := m\<rparr>"

definition qprocess_start :: "qprocess \<Rightarrow> qprocess" where
  "qprocess_start q = q\<lparr>state := Running\<rparr>"

definition kill :: "qprocess \<Rightarrow> qprocess" where
  "kill q = q\<lparr>killed := True\<rparr>"

text \<open>The child writes to its standard output or its standard error.\<close>

definition child_writes_stdout :: "string \<Rightarrow> qprocess \<Rightarrow> qprocess" where
  "child_writes_stdout txt q = q\<lparr>stdout_buffer := stdout_buffer q @ txt\<rparr>"

definition child_writes_stderr :: "string \<Rightarrow> qprocess \<Rightarrow> qprocess" where
  "child_writes_stderr txt q =
     (if channel_mode q = MergedChannels then q\<lparr>stdout_buffer := stdout_buffer q @ txt\<rparr>
      else q\<lparr>stderr_buffer := stderr_buffer q @ txt\<rparr>)"

text \<open>The child exits: the object records the exit code and stops running.\<close>

definition child_exits :: "int \<Rightarrow> qprocess \<Rightarrow> qprocess" where
  "child_exits rc q = q\<lparr>state := NotRunning, exit_code := rc\<rparr>"

definition canReadLine :: "qprocess \<Rightarrow> bool" where
  "canReadLine q \<longleftrightarrow> CHR 0x0A \<in> set (stdout_buffer q)"

text \<open>\<^verbatim>\<open>readLine()\<close>: the buffered bytes up to and including the first line feed.\<close>

definition readLine :: "qprocess \<Rightarrow> string \<times> qprocess" where
  "readLine q =
     (let b = stdout_buffer q;
          n = Suc (length (takeWhile (\<lambda>c. c \<noteq> CHR 0x0A) b))
      in (take n b, q\<lparr>stdout_buffer := drop n b\<rparr>))"

definition readAllStandardError :: "qprocess \<Rightarrow> string \<times> qprocess" where
  "readAllStandardError q =
     (if channel_mode q = MergedChannels then ([], q)
      else (stderr_buffer q, q\<lparr>stderr_buffer := []\<rparr>))"

subsection \<open>\<^verbatim>\<open>ConversionProcess\<close>\<close>

datatype status_label = En_espera | En_proceso | Completado | Error_label | Omitido

text \<open>
  The two information texts: speed and remaining whole seconds (the rendering as text is
  left out), and the completion message.
\<close>

datatype info_text = Velocidad_restante pyfloat int | Conversion_completada

datatype signal =
  Progress_update nat pyfloat
| Status_update nat status_label
| Error_occurred nat string
| Info_update nat info_text
| Finished nat int

record conversion_process =
  index :: nat
  input_file :: string
  output_file :: string
  bitrate :: string
  format :: string
  process :: qprocess
  duration :: pyfloat
  start_time :: "rat option"

text \<open>
  \<^verbatim>\<open>get_duration\<close>: every exception of the probe and of \<^verbatim>\<open>float()\<close> is caught
  (\<^verbatim>\<open>except Exception\<close>). The exit status of the probe is not inspected.
\<close>

definition get_duration :: "env \<Rightarrow> string \<Rightarrow> py_error + pyfloat" where
  "get_duration e file =
     (case ffprobe_duration e file of
        Inl _ \<Rightarrow> Inr (Float_fin 0)
      | Inr result \<Rightarrow>
          (case py_float (strip (stdout result)) of
             Inl _ \<Rightarrow> Inr (Float_fin 0)
           | Inr d \<Rightarrow> Inr d))"

text \<open>The constructor \<^verbatim>\<open>ConversionProcess.__init__\<close>.\<close>

definition ConversionProcess ::
  "env \<Rightarrow> nat \<Rightarrow> string \<Rightarrow> string \<Rightarrow> string \<Rightarrow> string \<Rightarrow> py_error + conversion_process" where
  "ConversionProcess e i inp outp br fmt =
     (case get_duration e inp of
        Inl err \<Rightarrow> Inl err
      | Inr d \<Rightarrow>
          Inr \<lparr>index = i, input_file = inp, output_file = outp, bitrate = br, format = fmt,
               process = setProcessChannelMode MergedChannels QProcess,
               duration = d, start_time = None\<rparr>)"

text \<open>\<^verbatim>\<open>start\<close>: launch the encoder, signal the status, record the launch time.\<close>

definition start :: "rat \<Rightarrow> conversion_process \<Rightarrow> conversion_process \<times> signal list" where
  "start now p =
     (p\<lparr>process := qprocess_start (process p), start_time := Some now\<rparr>,
      [Status_update (index p) En_proceso])"

text \<open>The body of the \<^verbatim>\<open>try\<close> in \<^verbatim>\<open>ffmpeg_time_to_seconds\<close>.\<close>

definition time_to_seconds_body :: "string \<Rightarrow> py_error + pyfloat" where
  "time_to_seconds_body time_str =
     (case (if CHR ''.'' \<in> set time_str
            then (case py_split (CHR ''.'') time_str of
                    [hms, ms] \<Rightarrow>
                      (case py_float (''0.'' @ ms) of
                         Inl err \<Rightarrow> Inl err
                       | Inr f \<Rightarrow> Inr (hms, f))
                  | _ \<Rightarrow> Inl ValueError)
            else Inr (time_str, Float_fin 0)) of
        Inl err \<Rightarrow> Inl err
      | Inr (hms, ms) \<Rightarrow>
          (case py_split (CHR '':'') hms of
             [a, b, c] \<Rightarrow>
               (case py_int a of
                  Inl err \<Rightarrow> Inl err
                | Inr h \<Rightarrow>
                    (case py_int b of
                       Inl err \<Rightarrow> Inl err
                     | Inr m \<Rightarrow>
                         (case py_int c of
                            Inl err \<Rightarrow> Inl err
                          | Inr s \<Rightarrow>
                              Inr (float_add (Float_fin (of_int (h * 3600 + m * 60 + s))) ms))))
           | _ \<Rightarrow> Inl ValueError))"

text \<open>\<^verbatim>\<open>except ValueError: return 0\<close>; any other exception would reach the caller.\<close>

definition ffmpeg_time_to_seconds :: "string \<Rightarrow> py_error + pyfloat" where
  "ffmpeg_time_to_seconds time_str =
     (case time_to_seconds_body time_str of
        Inl err \<Rightarrow> (if err = ValueError then Inr (Float_fin 0) else Inl err)
      | Inr total_seconds \<Rightarrow> Inr total_seconds)"

text \<open>
  \<^verbatim>\<open>format_time\<close>: \<^verbatim>\<open>timedelta\<close> accepts at most 999999999 days in either direction. The
  result stands for the text of the time span of that many whole seconds.
\<close>

definition format_time :: "pyfloat \<Rightarrow> py_error + int" where
  "format_time seconds =
     (case int_of_float seconds of
        Inl err \<Rightarrow> Inl err
      | Inr n \<Rightarrow> (if \<bar>n div 86400\<bar> \<le> 999999999 then Inr n else Inl OverflowError))"

text \<open>Speed and remaining time (the lines after the progress signal in \<^verbatim>\<open>parse_progress\<close>).\<close>

definition speed_info :: "conversion_process \<Rightarrow> rat \<Rightarrow> pyfloat \<Rightarrow> py_error + info_text" where
  "speed_info p now out_time =
     (case start_time p of
        None \<Rightarrow> Inl TypeError
      | Some t0 \<Rightarrow>
          (let elapsed_time = now - t0 in
           case (if 0 < elapsed_time then float_div out_time (Float_fin elapsed_time)
                 else Inr (Float_fin 0)) of
             Inl err \<Rightarrow> Inl err
           | Inr speed \<Rightarrow>
               (case (if float_pos speed
                      then float_div (float_sub (duration p) out_time) speed
                      else Inr (Float_fin 0)) of
                  Inl err \<Rightarrow> Inl err
                | Inr remaining_time \<Rightarrow>
                    (case format_time remaining_time of
                       Inl err \<Rightarrow> Inl err
                     | Inr n \<Rightarrow> Inr (Velocidad_restante speed n)))))"

text \<open>
  \<^verbatim>\<open>parse_progress\<close>: the signals emitted for one line, in order, and the exception that
  ended the call, if any. \<open>now\<close> is the wall clock at the call.
\<close>

definition parse_progress ::
  "conversion_process \<Rightarrow> rat \<Rightarrow> string \<Rightarrow> signal list \<times> py_error option" where
  "parse_progress p now line =
     (if startswith line ''out_time=''
      then (case py_split (CHR ''='') line of
              _ # out_time_str # _ \<Rightarrow>
                (case ffmpeg_time_to_seconds out_time_str of
                   Inl err \<Rightarrow> ([], Some err)
                 | Inr out_time \<Rightarrow>
                     (if float_pos (duration p)
                      then (case float_div out_time (duration p) of
                              Inl err \<Rightarrow> ([], Some err)
                            | Inr q \<Rightarrow>
                                (let progress = float_mul q (Float_fin 100) in
                                 case speed_info p now out_time of
                                   Inl err \<Rightarrow> ([Progress_update (index p) progress], Some err)
                                 | Inr info \<Rightarrow>
                                     ([Progress_update (index p) progress,
                                       Info_update (index p) info], None)))
                      else ([], None)))
            | _ \<Rightarrow> ([], Some IndexError))
      else if startswith line ''progress=''
      then (case py_split (CHR ''='') line of
              _ # v # _ \<Rightarrow>
                (if v = ''end''
                 then ([Progress_update (index p) (Float_fin 100),
                        Info_update (index p) Conversion_completada], None)
                 else ([], None))
            | _ \<Rightarrow> ([], Some IndexError))
      else ([], None))"

text \<open>
  \<^verbatim>\<open>ConversionProcess.process_finished\<close>, the slot of the \<^verbatim>\<open>QProcess\<close>'s \<^verbatim>\<open>finished\<close>
  signal.
\<close>

definition cp_process_finished :: "conversion_process \<Rightarrow> conversion_process \<times> signal list" where
  "cp_process_finished p =
     (let return_code = exit_code (process p) in
      if return_code = 0
      then (p, [Status_update (index p) Completado,
                Progress_update (index p) (Float_fin 100),
                Finished (index p) return_code])
      else (case readAllStandardError (process p) of
              (error_message, q) \<Rightarrow>
                (p\<lparr>process := q\<rparr>,
                 [Status_update (index p) Error_label,
                  Error_occurred (index p) error_message,
                  Finished (index p) return_code])))"

text \<open>
  \<^verbatim>\<open>read_output\<close>: every complete line of the standard output channel is decoded,
  stripped and parsed; a last line without line feed stays in the buffer. The result is
  the process, the signals emitted and the exception that ended the call, if any.
\<close>

function read_output ::
  "rat \<Rightarrow> conversion_process \<Rightarrow> conversion_process \<times> signal list \<times> py_error option" where
  "read_output now p =
     (if canReadLine (process p)
      then (case readLine (process p) of
              (line, q) \<Rightarrow>
                (case parse_progress p now (strip line) of
                   (sigs, Some err) \<Rightarrow> (p\<lparr>process := q\<rparr>, sigs, Some err)
                 | (sigs, None) \<Rightarrow>
                     (case read_output now (p\<lparr>process := q\<rparr>) of
                        (p', sigs', err) \<Rightarrow> (p', sigs @ sigs', err))))
      else (p, [], None))"
  by pat_completeness auto
termination
  by (relation "measure (\<lambda>(now, p). length (stdout_buffer (process p)))")
     (auto simp: readLine_def canReadLine_def Let_def intro!: diff_less length_pos_if_in_set)

subsection \<open>\<^verbatim>\<open>MainWindow\<close>: the session and its scheduler\<close>

text \<open>
  What the window shows is recorded as a list of effects, in the order of the calls:
  a row's status, progress bar and information text, the overall progress bar, the log
  pane, the enabling of the input widgets and the buttons, the JSON record of
  \<^verbatim>\<open>log_conversion\<close>, and the message boxes. The two message boxes at the end of
  \<^verbatim>\<open>MainWindow.process_finished\<close> are the report of a finished batch.
\<close>

datatype message =
  Already_converting | No_input_files | No_output_folder | Output_folder_missing
| Ffmpeg_missing | Some_failed "string list" | Completed_successfully | Stopped_by_user

datatype ui =
  Set_status nat status_label
| Set_progress nat int
| Set_info nat info_text
| Set_overall_progress int
| Log_cleared
| Log_error string
| Log_conversion "string list" string string
| Interface_enabled bool
| Warning message
| Information message
| Critical message

fun is_report :: "ui \<Rightarrow> bool" where
  "is_report (Warning (Some_failed _)) = True"
| "is_report (Information Completed_successfully) = True"
| "is_report _ = False"

fun is_progress :: "ui \<Rightarrow> bool" where
  "is_progress (Set_progress _ _) = True"
| "is_progress (Set_overall_progress _) = True"
| "is_progress _ = False"

text \<open>
  The fields of the window that the conversion reads or writes (\<^verbatim>\<open>self.bitrate\<close>,
  \<^verbatim>\<open>self.format\<close> and \<^verbatim>\<open>self.overwrite\<close> are set once and never read), and the values of
  the four input widgets.
\<close>

record main_window =
  files :: "string list"
  output_folder :: string
  is_converting :: bool
  active_processes :: "conversion_process list"
  conversion_queue :: "conversion_process list"
  max_concurrent_processes :: int
  total_files :: nat
  completed_files :: nat
  failed_files :: "string list"
  output_line_edit :: string
  overwrite_checkbox :: bool
  bitrate_combo :: string
  format_combo :: string

text \<open>
  \<^verbatim>\<open>MainWindow.__init__\<close>; the argument is the value of \<^verbatim>\<open>os.cpu_count()\<close>, which may be
  \<^verbatim>\<open>None\<close>.
\<close>

definition MainWindow :: "nat option \<Rightarrow> py_error + main_window" where
  "MainWindow cpu_count =
     (case cpu_count of
        None \<Rightarrow> Inl TypeError
      | Some n \<Rightarrow>
          Inr \<lparr>files = [], output_folder = [], is_converting = False,
               active_processes = [], conversion_queue = [],
               max_concurrent_processes = max 1 (int n - 1),
               total_files = 0, completed_files = 0, failed_files = [],
               output_line_edit = [], overwrite_checkbox = False,
               bitrate_combo = ''192k'', format_combo = ''mp3''\<rparr>)"

definition is_valid_file :: "env \<Rightarrow> string \<Rightarrow> bool" where
  "is_valid_file e file_path =
     (case ffprobe_streams e file_path of
        Inl _ \<Rightarrow> False
      | Inr result \<Rightarrow> stdout result \<noteq> [])"

text \<open>\<^verbatim>\<open>add_files\<close>, for the files chosen in the dialog.\<close>

fun add_files :: "env \<Rightarrow> string list \<Rightarrow> main_window \<Rightarrow> main_window" where
  "add_files e [] w = w"
| "add_files e (file # rest) w =
     (if file \<notin> set (files w) \<and> is_valid_file e file
      then add_files e rest (w\<lparr>files := files w @ [file]\<rparr>)
      else add_files e rest w)"

text \<open>The slots that only change what a row of the table shows.\<close>

definition update_status :: "nat \<Rightarrow> status_label \<Rightarrow> ui list" where
  "update_status i status = [Set_status i status]"

definition update_info :: "nat \<Rightarrow> info_text \<Rightarrow> ui list" where
  "update_info i info = [Set_info i info]"

text \<open>\<^verbatim>\<open>QProgressBar.setValue\<close> takes a C \<^verbatim>\<open>int\<close>.\<close>

definition setValue :: "int \<Rightarrow> py_error + int" where
  "setValue v = (if - (2 ^ 31) \<le> v \<and> v < 2 ^ 31 then Inr v else Inl OverflowError)"

definition update_progress :: "nat \<Rightarrow> pyfloat \<Rightarrow> py_error + ui list" where
  "update_progress i progress =
     (case int_of_float progress of
        Inl err \<Rightarrow> Inl err
      | Inr v \<Rightarrow> (case setValue v of Inl err \<Rightarrow> Inl err | Inr v' \<Rightarrow> Inr [Set_progress i v']))"

definition handle_error ::
  "nat \<Rightarrow> string \<Rightarrow> main_window \<Rightarrow> py_error + main_window \<times> ui list" where
  "handle_error i error_message w =
     (if i < length (files w)
      then Inr (w\<lparr>failed_files := failed_files w @ [files w ! i]\<rparr>,
                [Log_error error_message] @ update_status i Error_label)
      else Inl IndexError)"

text \<open>\<^verbatim>\<open>start\<close> emits the status signal only; its slot is \<^verbatim>\<open>update_status\<close>.\<close>

fun status_slot :: "signal \<Rightarrow> ui list" where
  "status_slot (Status_update i status) = update_status i status"
| "status_slot _ = []"

text \<open>\<^verbatim>\<open>start_next_processes\<close>: the admission loop of the scheduler.\<close>

function start_next_processes :: "rat \<Rightarrow> main_window \<Rightarrow> main_window \<times> ui list" where
  "start_next_processes now w =
     (if int (length (active_processes w)) < max_concurrent_processes w
         \<and> conversion_queue w \<noteq> []
      then (case start now (hd (conversion_queue w)) of
              (started, sigs) \<Rightarrow>
                (case start_next_processes now
                        (w\<lparr>conversion_queue := tl (conversion_queue w),
                           active_processes := active_processes w @ [started]\<rparr>) of
                   (w', out) \<Rightarrow> (w', concat (map status_slot sigs) @ out)))
      else (w, []))"
  by pat_completeness auto
termination
  by (relation "measure (\<lambda>(now, w). length (conversion_queue w))") auto

text \<open>
  \<^verbatim>\<open>validate_inputs\<close>: the message shown, if the inputs are refused; otherwise the window
  with the output folder taken from the line edit.
\<close>

definition validate_inputs :: "env \<Rightarrow> main_window \<Rightarrow> message + main_window" where
  "validate_inputs e w =
     (if files w = [] then Inl No_input_files
      else if output_line_edit w = [] then Inl No_output_folder
      else if \<not> os_path_exists e (output_line_edit w) then Inl Output_folder_missing
      else if \<not> ffmpeg_found e then Inl Ffmpeg_missing
      else Inr (w\<lparr>output_folder := output_line_edit w\<rparr>))"

text \<open>
  The loop over \<^verbatim>\<open>enumerate(self.files)\<close> in \<^verbatim>\<open>start_conversion\<close>: a file whose output
  exists is shown as skipped with progress 100 when overwriting is off; every other file
  gets a \<^verbatim>\<open>ConversionProcess\<close> at the end of the queue.
\<close>

fun enqueue_files ::
  "env \<Rightarrow> nat \<Rightarrow> string list \<Rightarrow> main_window \<Rightarrow> py_error + main_window \<times> ui list" where
  "enqueue_files e i [] w = Inr (w, [])"
| "enqueue_files e i (inp # rest) w =
     (let outp =
            os_path_join e (output_folder w)
              (os_path_splitext_root e (os_path_basename e inp) @ ''.'' @ format_combo w)
      in if os_path_exists e outp \<and> \<not> overwrite_checkbox w
         then (case update_progress i (Float_fin 100) of
                 Inl err \<Rightarrow> Inl err
               | Inr u \<Rightarrow>
                   (case enqueue_files e (Suc i) rest w of
                      Inl err \<Rightarrow> Inl err
                    | Inr (w', out) \<Rightarrow> Inr (w', update_status i Omitido @ u @ out)))
         else (case ConversionProcess e i inp outp
                      (bitrate_combo w) (format_combo w) of
                 Inl err \<Rightarrow> Inl err
               | Inr job \<Rightarrow>
                   enqueue_files e (Suc i) rest
                     (w\<lparr>conversion_queue := conversion_queue w @ [job]\<rparr>)))"

definition start_conversion ::
  "env \<Rightarrow> rat \<Rightarrow> main_window \<Rightarrow> py_error + main_window \<times> ui list" where
  "start_conversion e now w =
     (if is_converting w then Inr (w, [Warning Already_converting])
      else (case validate_inputs e w of
              Inl msg \<Rightarrow>
                Inr (w, [if msg = Ffmpeg_missing then Critical msg else Warning msg])
            | Inr w0 \<Rightarrow>
                (let w1 = w0\<lparr>is_converting := True, failed_files := [],
                             completed_files := 0, total_files := length (files w0),
                             active_processes := [], conversion_queue := []\<rparr>
                 in case enqueue_files e 0 (files w1) w1 of
                      Inl err \<Rightarrow> Inl err
                    | Inr (w2, out2) \<Rightarrow>
                        (case start_next_processes now w2 of
                           (w3, out3) \<Rightarrow>
                             Inr (w3, [Interface_enabled False, Set_overall_progress 0,
                                       Log_cleared] @ out2 @ out3)))))"

text \<open>
  \<^verbatim>\<open>MainWindow.process_finished\<close>, the slot of a job's \<^verbatim>\<open>finished\<close> signal. The overall
  percentage is \<^verbatim>\<open>int((completed / total) * 100)\<close>.
\<close>

definition process_finished ::
  "rat \<Rightarrow> nat \<Rightarrow> int \<Rightarrow> main_window \<Rightarrow> py_error + main_window \<times> ui list" where
  "process_finished now i return_code w =
     (let w1 = w\<lparr>completed_files := completed_files w + 1\<rparr> in
      if total_files w1 = 0 then Inl ZeroDivisionError
      else (case setValue (int (completed_files w1 * 100 div total_files w1)) of
              Inl err \<Rightarrow> Inl err
            | Inr progress \<Rightarrow>
                (let w2 = (case find (\<lambda>p. index p = i) (active_processes w1) of
                             None \<Rightarrow> w1
                           | Some p \<Rightarrow>
                               w1\<lparr>active_processes := remove1 p (active_processes w1)\<rparr>)
                 in case start_next_processes now w2 of
                      (w3, out3) \<Rightarrow>
                        (if completed_files w3 = total_files w3
                         then Inr (w3\<lparr>is_converting := False\<rparr>,
                                   [Set_overall_progress progress] @ out3 @
                                   [Interface_enabled True,
                                    Log_conversion (files w3) (output_folder w3) (format_combo w3),
                                    if failed_files w3 \<noteq> []
                                    then Warning (Some_failed (failed_files w3))
                                    else Information Completed_successfully])
                         else Inr (w3, [Set_overall_progress progress] @ out3)))))"

text \<open>\<^verbatim>\<open>stop_conversion\<close>.\<close>

definition stop_conversion :: "main_window \<Rightarrow> main_window \<times> ui list" where
  "stop_conversion w =
     (w\<lparr>active_processes :=
          map (\<lambda>p. if state (process p) \<noteq> NotRunning
                   then p\<lparr>process := kill (process p)\<rparr> else p)
              (active_processes w),
        conversion_queue := [],
        is_converting := False\<rparr>,
      [Interface_enabled True, Information Stopped_by_user])"

subsection \<open>The event loop\<close>

text \<open>
  The signals of a job are connected to the slots of the window in \<^verbatim>\<open>start_conversion\<close>;
  a slot runs when its signal is emitted, in the order of emission. An exception in a
  slot ends the run.
\<close>

fun deliver :: "rat \<Rightarrow> signal \<Rightarrow> main_window \<Rightarrow> py_error + main_window \<times> ui list" where
  "deliver now (Status_update i status) w = Inr (w, update_status i status)"
| "deliver now (Progress_update i v) w =
     (case update_progress i v of Inl err \<Rightarrow> Inl err | Inr u \<Rightarrow> Inr (w, u))"
| "deliver now (Info_update i info) w = Inr (w, update_info i info)"
| "deliver now (Error_occurred i msg) w = handle_error i msg w"
| "deliver now (Finished i rc) w = process_finished now i rc w"

fun deliver_all ::
  "rat \<Rightarrow> signal list \<Rightarrow> main_window \<Rightarrow> py_error + main_window \<times> ui list" where
  "deliver_all now [] w = Inr (w, [])"
| "deliver_all now (sg # sgs) w =
     (case deliver now sg w of
        Inl err \<Rightarrow> Inl err
      | Inr (w1, out1) \<Rightarrow>
          (case deliver_all now sgs w1 of
             Inl err \<Rightarrow> Inl err
           | Inr (w2, out2) \<Rightarrow> Inr (w2, out1 @ out2)))"

fun replace_first :: "('a \<Rightarrow> bool) \<Rightarrow> 'a \<Rightarrow> 'a list \<Rightarrow> 'a list" where
  "replace_first P y [] = []"
| "replace_first P y (x # xs) = (if P x then y # xs else x # replace_first P y xs)"

text \<open>The running job of index \<open>i\<close>: a started job that has not exited is in the active list.\<close>

definition running_job :: "nat \<Rightarrow> conversion_process \<Rightarrow> bool" where
  "running_job i p \<longleftrightarrow> index p = i \<and> state (process p) = Running"

text \<open>
  The child of the running job \<open>i\<close> exits with code \<open>rc\<close>: the \<^verbatim>\<open>QProcess\<close> emits
  \<^verbatim>\<open>finished\<close>, whose slot is \<^verbatim>\<open>ConversionProcess.process_finished\<close>. Nothing happens when
  no job of that index is running.
\<close>

definition child_exit :: "rat \<Rightarrow> nat \<Rightarrow> int \<Rightarrow> main_window \<Rightarrow> py_error + main_window \<times> ui list" where
  "child_exit now i rc w =
     (case find (running_job i) (active_processes w) of
        None \<Rightarrow> Inr (w, [])
      | Some p \<Rightarrow>
          (case cp_process_finished (p\<lparr>process := child_exits rc (process p)\<rparr>) of
             (p', sigs) \<Rightarrow>
               deliver_all now sigs
                 (w\<lparr>active_processes :=
                      replace_first (running_job i) p' (active_processes w)\<rparr>)))"

text \<open>
  The child of the running job \<open>i\<close> writes to its standard output or standard error:
  the \<^verbatim>\<open>QProcess\<close> emits \<^verbatim>\<open>readyReadStandardOutput\<close> when data arrived on its output
  channel, whose slot is \<^verbatim>\<open>read_output\<close>.
\<close>

definition child_writes ::
  "rat \<Rightarrow> nat \<Rightarrow> bool \<Rightarrow> string \<Rightarrow> main_window \<Rightarrow> py_error + main_window \<times> ui list" where
  "child_writes now i to_stderr txt w =
     (case find (running_job i) (active_processes w) of
        None \<Rightarrow> Inr (w, [])
      | Some p \<Rightarrow>
          (let q = (if to_stderr then child_writes_stderr txt (process p)
                    else child_writes_stdout txt (process p))
           in if stdout_buffer q = stdout_buffer (process p)
              then Inr (w\<lparr>active_processes :=
                            replace_first (running_job i) (p\<lparr>process := q\<rparr>)
                              (active_processes w)\<rparr>, [])
              else (case read_output now (p\<lparr>process := q\<rparr>) of
                      (p', sigs, err) \<Rightarrow>
                        (case deliver_all now sigs
                                (w\<lparr>active_processes :=
                                     replace_first (running_job i) p' (active_processes w)\<rparr>) of
                           Inl e' \<Rightarrow> Inl e'
                         | Inr (w', out) \<Rightarrow>
                             (case err of None \<Rightarrow> Inr (w', out) | Some e' \<Rightarrow> Inl e')))))"

text \<open>
  What happens to the window: the user acts on the widgets that are enabled, and the
  children of the running jobs write and exit.
\<close>

datatype event =
  Choose_files "string list"
| Choose_output_folder string
| Check_overwrite bool
| Click_start
| Click_stop
| Child_stdout nat string
| Child_stderr nat string
| Child_exit nat int

fun step :: "env \<Rightarrow> rat \<Rightarrow> event \<Rightarrow> main_window \<Rightarrow> py_error + main_window \<times> ui list" where
  "step e now (Choose_files fs) w =
     Inr (if is_converting w then w else add_files e fs w, [])"
| "step e now (Choose_output_folder folder) w =
     Inr (if is_converting w \<or> folder = [] then w
          else w\<lparr>output_folder := folder, output_line_edit := folder\<rparr>, [])"
| "step e now (Check_overwrite b) w =
     Inr (if is_converting w then w else w\<lparr>overwrite_checkbox := b\<rparr>, [])"
| "step e now Click_start w = start_conversion e now w"
| "step e now Click_stop w = (if is_converting w then Inr (stop_conversion w) else Inr (w, []))"
| "step e now (Child_stdout i txt) w = child_writes now i False txt w"
| "step e now (Child_stderr i txt) w = child_writes now i True txt w"
| "step e now (Child_exit i rc) w = child_exit now i rc w"

text \<open>A run: timed events from a window, with everything the window showed.\<close>

fun run :: "env \<Rightarrow> (rat \<times> event) list \<Rightarrow> main_window \<Rightarrow> py_error + main_window \<times> ui list" where
  "run e [] w = Inr (w, [])"
| "run e ((now, ev) # evs) w =
     (case step e now ev w of
        Inl err \<Rightarrow> Inl err
      | Inr (w1, out1) \<Rightarrow>
          (case run e evs w1 of
             Inl err \<Rightarrow> Inl err
           | Inr (w2, out2) \<Rightarrow> Inr (w2, out1 @ out2)))"

text \<open>What a run showed; nothing is kept of a run that ended in an exception.\<close>

definition shown :: "py_error + main_window \<times> ui list \<Rightarrow> ui list" where
  "shown r = (case r of Inl _ \<Rightarrow> [] | Inr (w, out) \<Rightarrow> out)"

definition window_of :: "py_error + main_window \<times> ui list \<Rightarrow> main_window option" where
  "window_of r = (case r of Inl _ \<Rightarrow> None | Inr (w, out) \<Rightarrow> Some w)"

subsection \<open>A sample environment\<close>

text \<open>
  An environment for the concrete runs below: every probe reports a duration of 180
  seconds, the output folder \<^verbatim>\<open>out\<close> exists and already holds \<^verbatim>\<open>a.mp3\<close>.
\<close>

definition sample_env :: env where
  "sample_env =
     \<lparr>ffprobe_duration = (\<lambda>f. Inr \<lparr>returncode = 0, stdout = ''180.000000'', stderr = []\<rparr>),
      ffprobe_streams = (\<lambda>f. Inr \<lparr>returncode = 0, stdout = ''[STREAM]'', stderr = []\<rparr>),
      ffmpeg_found = True,
      os_path_exists = (\<lambda>p. p = ''out'' \<or> p = ''out/a.mp3''),
      os_path_basename = (\<lambda>p. p),
      os_path_splitext_root = takeWhile (\<lambda>c. c \<noteq> CHR ''.''),
      os_path_join = (\<lambda>a b. a @ ''/'' @ b)\<rparr>"

text \<open>The window of a machine with four processors: at most three jobs at a time.\<close>

definition sample_window :: main_window where
  "sample_window =
     \<lparr>files = [], output_folder = [], is_converting = False,
      active_processes = [], conversion_queue = [],
      max_concurrent_processes = 3,
      total_files = 0, completed_files = 0, failed_files = [],
      output_line_edit = [], overwrite_checkbox = False,
      bitrate_combo = ''192k'', format_combo = ''mp3''\<rparr>"


text \<open>A running job of index 0 whose input lasts 180 seconds, started at time 0.\<close>

definition sample_job :: conversion_process where
  "sample_job =
     \<lparr>index = 0, input_file = ''a.wav'', output_file = ''out/a.mp3'', bitrate = ''192k'',
      format = ''mp3'',
      process = qprocess_start (setProcessChannelMode MergedChannels QProcess),
      duration = Float_fin 180, start_time = Some 0\<rparr>"

subsection \<open>The timestamp format of the specification\<close>




section \<open>Properties\<close>

subsection \<open>Splitting, stripping and the number parsers\<close>


lemma py_split_no_sep: "sep \<notin> set s \<Longrightarrow> py_split sep s = [s]"
  by (induction s) auto

lemma py_split_append:
  "sep \<notin> set a \<Longrightarrow> py_split sep (a @ sep # b) = a # py_split sep b"
  by (induction a) auto

lemma digitpart_digits:
  "ds \<noteq> [] \<Longrightarrow> \<forall>c\<in>set ds. isdigit c \<Longrightarrow> digitpart ds = Some ds"
proof (induction ds rule: digitpart.induct)
  case 1 then show ?case by simp
next
  case (2 c) then show ?case by simp
next
  case (3 c d cs)
  then have "d \<noteq> CHR ''_''" by (auto simp: isdigit_def)
  with 3 show ?case by simp
qed

lemma strip_id:
  "s \<noteq> [] \<Longrightarrow> \<not> isspace (hd s) \<Longrightarrow> \<not> isspace (last s) \<Longrightarrow> strip s = s"
proof -
  assume a: "s \<noteq> []" "\<not> isspace (hd s)" "\<not> isspace (last s)"
  have d: "dropWhile P xs = xs" if "xs \<noteq> []" "\<not> P (hd xs)" for P and xs :: string
    using that by (cases xs) auto
  have "dropWhile isspace s = s" using a by (intro d)
  moreover have "dropWhile isspace (rev s) = rev s"
    using a by (intro d) (auto simp: hd_rev)
  ultimately show ?thesis by (simp add: strip_def)
qed

lemma digit_not_space: "isdigit c \<Longrightarrow> \<not> isspace c"
  by (auto simp: isdigit_def isspace_def)

lemma py_int_digits:
  assumes "ds \<noteq> []" "\<forall>c\<in>set ds. isdigit c"
  shows "py_int ds = Inr (int (nat_of_digits ds))"
proof -
  have "strip ds = ds"
    using assms by (intro strip_id) (auto simp: digit_not_space)
  moreover have "split_sign ds = (False, ds)"
    using assms by (cases ds) (auto simp: isdigit_def)
  ultimately show ?thesis
    using assms by (simp add: py_int_def digitpart_digits)
qed

lemma nat_of_digits_zero_Cons: "nat_of_digits (CHR ''0'' # ds) = nat_of_digits ds"
  by (simp add: nat_of_digits_def digit_val_def)

lemma takeWhile_all: "\<forall>c\<in>set xs. P c \<Longrightarrow> takeWhile P xs = xs"
  by (induction xs) auto

lemma digit_chars:
  assumes "isdigit c"
  shows "c \<noteq> CHR ''.''" "c \<noteq> CHR ''_''" "c \<noteq> CHR '':''" "c \<noteq> CHR ''-''" "c \<noteq> CHR ''+''"
    "\<not> is_exp_mark c"
  using assms by (auto simp: isdigit_def is_exp_mark_def)

lemma mantissa_zero_fraction:
  assumes "\<forall>c\<in>set fs. isdigit c"
  shows "mantissa (''0.'' @ fs) = Some (''0'' @ fs, length fs)"
proof -
  have od: "opt_digitpart fs = Some fs"
    using assms by (simp add: opt_digitpart_def digitpart_digits)
  have z: "opt_digitpart ''0'' = Some ''0''"
    by (simp add: opt_digitpart_def isdigit_def)
  have tw: "takeWhile (\<lambda>c. c \<noteq> CHR ''.'') (''0.'' @ fs) = ''0''" by simp
  have dw: "dropWhile (\<lambda>c. c \<noteq> CHR ''.'') (''0.'' @ fs) = CHR ''.'' # fs" by simp
  show ?thesis
    unfolding mantissa_def Let_def tw dw by (simp add: od z)
qed

lemma decimal_zero_fraction:
  assumes "\<forall>c\<in>set fs. isdigit c"
  shows "decimal_literal (''0.'' @ fs) = Some (of_nat (nat_of_digits fs) / 10 ^ length fs)"
proof -
  have noexp: "\<forall>c\<in>set (''0.'' @ fs). \<not> is_exp_mark c"
    using assms by (auto simp: digit_chars(6)) (simp_all add: is_exp_mark_def)
  have tw: "takeWhile (\<lambda>c. \<not> is_exp_mark c) (''0.'' @ fs) = ''0.'' @ fs"
    using noexp by (rule takeWhile_all)
  have dw: "dropWhile (\<lambda>c. \<not> is_exp_mark c) (''0.'' @ fs) = []"
    using noexp by (simp only: dropWhile_eq_Nil_conv)
  have sc: "scale10 (of_nat (nat_of_digits (''0'' @ fs))) (- int (length fs))
             = of_nat (nat_of_digits fs) / 10 ^ length fs"
    using nat_of_digits_zero_Cons[of fs] by (simp add: scale10_def)
  show ?thesis
    unfolding decimal_literal_def Let_def tw dw mantissa_zero_fraction[OF assms]
    using sc by simp
qed

lemma py_float_fraction:
  assumes "\<forall>c\<in>set fs. isdigit c"
  shows "py_float (''0.'' @ fs) = Inr (Float_fin (of_nat (nat_of_digits fs) / 10 ^ length fs))"
proof -
  let ?s = "''0.'' @ fs"
  have ns: "\<not> isspace (last ?s)"
  proof (cases fs rule: rev_cases)
    case Nil
    then show ?thesis by (simp add: isspace_def)
  next
    case (snoc ys y)
    with assms have "isdigit y" by simp
    with snoc show ?thesis by (simp add: digit_not_space)
  qed
  have st: "strip ?s = ?s"
    using ns by (intro strip_id) (auto simp: isspace_def)
  have sg: "split_sign ?s = (False, ?s)" by simp
  have w: "map lower_special ?s \<noteq> ''inf''" "map lower_special ?s \<noteq> ''infinity''"
    "map lower_special ?s \<noteq> ''nan''"
    by (simp_all add: lower_special_def)
  show ?thesis
    unfolding py_float_def st sg using w decimal_zero_fraction[OF assms] by simp
qed

subsection \<open>The conversion of a time string\<close>









lemma py_split3:
  assumes "sep \<notin> set a" "sep \<notin> set b" "sep \<notin> set c"
  shows "py_split sep (a @ sep # b @ sep # c) = [a, b, c]"
  using assms by (simp add: py_split_append py_split_no_sep)

lemma tts_no_dot:
  assumes "CHR ''.'' \<notin> set t" "py_split (CHR '':'') t = [a, b, c]"
    "py_int a = Inr h" "py_int b = Inr m" "py_int c = Inr s"
  shows "ffmpeg_time_to_seconds t = Inr (Float_fin (of_int (h * 3600 + m * 60 + s)))"
  using assms by (simp add: ffmpeg_time_to_seconds_def time_to_seconds_body_def)

lemma tts_dot:
  assumes "py_split (CHR ''.'') t = [hms, fs]" "py_split (CHR '':'') hms = [a, b, c]"
    "py_int a = Inr h" "py_int b = Inr m" "py_int c = Inr s"
    "py_float (''0.'' @ fs) = Inr (Float_fin f)"
  shows "ffmpeg_time_to_seconds t = Inr (Float_fin (of_int (h * 3600 + m * 60 + s) + f))"
proof -
  have "CHR ''.'' \<in> set t"
    using assms(1) py_split_no_sep[of "CHR ''.''" t] by auto
  then show ?thesis
    using assms by (simp add: ffmpeg_time_to_seconds_def time_to_seconds_body_def)
qed

lemma tts_digits:
  assumes "hs \<noteq> []" "ms \<noteq> []" "ss \<noteq> []" "\<forall>c\<in>set (hs @ ms @ ss). isdigit c"
  shows "ffmpeg_time_to_seconds (hs @ '':'' @ ms @ '':'' @ ss) =
           Inr (Float_fin (of_nat (nat_of_digits hs * 3600 + nat_of_digits ms * 60
                                   + nat_of_digits ss)))"
proof -
  have nd: "CHR ''.'' \<notin> set (hs @ '':'' @ ms @ '':'' @ ss)"
    using assms(4) digit_chars(1) by auto
  have nc: "CHR '':'' \<notin> set hs" "CHR '':'' \<notin> set ms" "CHR '':'' \<notin> set ss"
    using assms(4) digit_chars(3) by auto
  have sp: "py_split (CHR '':'') (hs @ '':'' @ ms @ '':'' @ ss) = [hs, ms, ss]"
    using py_split3[OF nc] by simp
  have i: "py_int hs = Inr (int (nat_of_digits hs))" "py_int ms = Inr (int (nat_of_digits ms))"
    "py_int ss = Inr (int (nat_of_digits ss))"
    using assms by (simp_all add: py_int_digits)
  show ?thesis
    using tts_no_dot[OF nd sp i] by simp
qed

lemma tts_digits_fraction:
  assumes "hs \<noteq> []" "ms \<noteq> []" "ss \<noteq> []" "\<forall>c\<in>set (hs @ ms @ ss @ fs). isdigit c"
  shows "ffmpeg_time_to_seconds (hs @ '':'' @ ms @ '':'' @ ss @ ''.'' @ fs) =
           Inr (Float_fin (of_nat (nat_of_digits hs * 3600 + nat_of_digits ms * 60
                                   + nat_of_digits ss)
                           + of_nat (nat_of_digits fs) / 10 ^ length fs))"
proof -
  let ?hms = "hs @ '':'' @ ms @ '':'' @ ss"
  have nd: "CHR ''.'' \<notin> set ?hms" "CHR ''.'' \<notin> set fs"
    using assms(4) digit_chars(1) by auto
  have nc: "CHR '':'' \<notin> set hs" "CHR '':'' \<notin> set ms" "CHR '':'' \<notin> set ss"
    using assms(4) digit_chars(3) by auto
  have "py_split (CHR ''.'') (?hms @ CHR ''.'' # fs) = [?hms, fs]"
    using py_split_append[OF nd(1), of fs] py_split_no_sep[OF nd(2)] by simp
  then have sd: "py_split (CHR ''.'') (hs @ '':'' @ ms @ '':'' @ ss @ ''.'' @ fs) = [?hms, fs]"
    by simp
  have sp: "py_split (CHR '':'') ?hms = [hs, ms, ss]"
    using py_split3[OF nc] by simp
  have i: "py_int hs = Inr (int (nat_of_digits hs))" "py_int ms = Inr (int (nat_of_digits ms))"
    "py_int ss = Inr (int (nat_of_digits ss))"
    using assms by (simp_all add: py_int_digits)
  have f: "py_float (''0.'' @ fs) = Inr (Float_fin (of_nat (nat_of_digits fs) / 10 ^ length fs))"
    using assms(4) by (intro py_float_fraction) simp
  show ?thesis
    using tts_dot[OF sd sp i f] by simp
qed














subsection \<open>The telemetry parser\<close>








text \<open>
  Claim C8: for every line \<^verbatim>\<open>progress=end\<close> the parser emits a progress signal of exactly
  100 and then the completion information, whatever the job (so for every duration, known
  or 0) and whatever lines came before: the parser keeps no record of earlier lines.
\<close>

theorem progress_end_emits_100:
  "parse_progress p now ''progress=end'' =
     ([Progress_update (index p) (Float_fin 100),
       Info_update (index p) Conversion_completada], None)"
  by (simp add: parse_progress_def startswith_def)

theorem progress_end_emits_100_witness:
  "parse_progress (sample_job\<lparr>duration := Float_fin 0\<rparr>) 7 ''progress=end'' =
     ([Progress_update 0 (Float_fin 100), Info_update 0 Conversion_completada], None)"
  using progress_end_emits_100[of "sample_job\<lparr>duration := Float_fin 0\<rparr>" 7]
  by (simp add: sample_job_def)






end
